theory Spec2Isabelle
  imports Main "HOL-Library.Sublist"
begin

section \<open>Data model of \<^verbatim>\<open>backend/ai_generator.py\<close>\<close>

text \<open>
  Python dictionaries whose contents the orchestrator never inspects (a tool definition,
  the \<^verbatim>\<open>input\<close> of a tool-use block) are association lists from keys to encoded values.
\<close>

type_synonym py_dict = "(string \<times> string) list"

text \<open>
  A raised Python exception: its class name and \<^verbatim>\<open>str(e)\<close>. The tool manager is
  taken to raise only instances of \<^verbatim>\<open>Exception\<close>, which is what the handler
  \<^verbatim>\<open>except Exception as e\<close> catches.
\<close>

datatype py_exception = PyExc (exc_class: string) (exc_str: string)

text \<open>
  A content block of a completion-engine response. A text block has \<^verbatim>\<open>.text\<close>;
  a tool-use block has \<^verbatim>\<open>.id\<close>, \<^verbatim>\<open>.name\<close> and \<^verbatim>\<open>.input\<close> and
  no \<^verbatim>\<open>.text\<close>.
\<close>

datatype content_block =
    TextBlock (block_text: string)
  | ToolUseBlock (block_id: string) (name: string) (input: py_dict)

fun block_type :: "content_block \<Rightarrow> string" where
  "block_type (TextBlock t) = ''text''"
| "block_type (ToolUseBlock i n inp) = ''tool_use''"

record response =
  content :: "content_block list"
  stop_reason :: string

text \<open>The dictionary appended to \<^verbatim>\<open>tool_results\<close> for one tool-use block.\<close>

record tool_result =
  tr_type :: string
  tool_use_id :: string
  tr_content :: string

text \<open>
  A transcript message \<^verbatim>\<open>{"role": ..., "content": ...}\<close>. Its content is the query
  string, the content list of a response, or a list of tool results.
\<close>

datatype message_content =
    Str string
  | Blocks "content_block list"
  | Results "tool_result list"

record message =
  role :: string
  msg_content :: message_content

text \<open>
  The keyword arguments of \<^verbatim>\<open>client.messages.create\<close>. The keys \<^verbatim>\<open>tools\<close> and
  \<^verbatim>\<open>tool_choice\<close> are optional: \<open>None\<close> is an absent key.
\<close>

record api_params =
  model :: string
  temperature :: int
  max_tokens :: int
  messages :: "message list"
  system :: string
  tools :: "py_dict list option"
  tool_choice :: "py_dict option"

text \<open>
  The completion engine and the tool manager are external and may be stateful: each takes
  the state of the outside world and returns its outcome (a raised exception on the left)
  with the new state.
\<close>

type_synonym 'w client = "'w \<Rightarrow> api_params \<Rightarrow> (py_exception + response) \<times> 'w"

type_synonym 'w tool_manager = "'w \<Rightarrow> string \<Rightarrow> py_dict \<Rightarrow> (py_exception + string) \<times> 'w"

record 'w AIGenerator =
  client :: "'w client"
  self_model :: string

text \<open>
  The observable effects of a query, in the order they happen: a call of
  \<^verbatim>\<open>client.messages.create\<close> with its keyword arguments and outcome, or a call of
  \<^verbatim>\<open>tool_manager.execute_tool\<close> with the tool name, the keyword arguments and outcome.
\<close>

datatype event =
    Create api_params "py_exception + response"
  | ExecuteTool string py_dict "py_exception + string"

section \<open>The orchestrator\<close>

definition MAX_TOOL_ROUNDS :: nat where
  "MAX_TOOL_ROUNDS = 2"

text \<open>The static system prompt; its one non-ASCII character (an em dash) is in UTF-8.\<close>

definition SYSTEM_PROMPT :: string where
  \<open>SYSTEM_PROMPT =
   '' You are an AI assistant specialized in course materials and educational content with access to a comprehensive search tool for course information.\<newline>'' @
   ''\<newline>'' @
   ''Tool Usage:\<newline>'' @
   ''- Use the **search_course_content** tool for questions about specific course content or detailed educational materials\<newline>'' @
   ''- Use the **get_course_outline** tool for questions about course structure, syllabus, outline, or lesson listings\<newline>'' @
   ''  - When presenting outline results, always include: the course title, the course link, and for each lesson its number and title\<newline>'' @
   ''- You may use up to 2 sequential tool calls per query when needed (e.g., first get an outline, then search based on results)\<newline>'' @
   ''- Most questions require only one tool call\<newline>'' @
   ''- Synthesize tool results into accurate, fact-based responses\<newline>'' @
   ''- If a tool yields no results, state this clearly without offering alternatives\<newline>'' @
   ''\<newline>'' @
   ''Response Protocol:\<newline>'' @
   ''- **General knowledge questions**: Answer using existing knowledge without searching\<newline>'' @
   ''- **Course outline/structure questions**: Use get_course_outline, then present the full outline with course title, course link, and all lessons\<newline>'' @
   ''- **Course content questions**: Use search_course_content, then answer\<newline>'' @
   ''- **No meta-commentary**:\<newline>'' @
   '' - Provide direct answers only '' @ [CHR 0xE2, CHR 0x80, CHR 0x94] @ '' no reasoning process, search explanations, or question-type analysis\<newline>'' @
   '' - Do not mention "based on the search results" or "based on the tool results"\<newline>'' @
   ''\<newline>'' @
   ''\<newline>'' @
   ''All responses must be:\<newline>'' @
   ''1. **Brief, Concise and focused** - Get to the point quickly\<newline>'' @
   ''2. **Educational** - Maintain instructional value\<newline>'' @
   ''3. **Clear** - Use accessible language\<newline>'' @
   ''4. **Example-supported** - Include relevant examples when they aid understanding\<newline>'' @
   ''Provide only the direct answer to what was asked.\<newline>''\<close>

text \<open>\<^verbatim>\<open>response.content[0].text\<close>, with the two ways it raises.\<close>

definition content0_text :: "response \<Rightarrow> py_exception + string" where
  "content0_text r =
     (case content r of
        [] \<Rightarrow> Inl (PyExc ''IndexError'' ''list index out of range'')
      | TextBlock t # _ \<Rightarrow> Inr t
      | ToolUseBlock i n inp # _ \<Rightarrow>
          Inl (PyExc ''AttributeError'' ([CHR 0x27] @ ''ToolUseBlock' object has no attribute 'text'' @ [CHR 0x27])))"

text \<open>
  The inner loop of \<^verbatim>\<open>_handle_tool_execution\<close> over \<^verbatim>\<open>current_response.content\<close>:
  every block whose \<^verbatim>\<open>type\<close> is \<^verbatim>\<open>tool_use\<close> (the second constructor) is executed, a
  raised exception becomes the text \<^verbatim>\<open>f"Tool execution error: {e}"\<close>, and one result is
  appended per block. Other blocks are skipped.
\<close>

fun execute_tools ::
  "'w tool_manager \<Rightarrow> content_block list \<Rightarrow> 'w \<Rightarrow> tool_result list \<times> event list \<times> 'w" where
  "execute_tools tool_manager [] w = ([], [], w)"
| "execute_tools tool_manager (TextBlock t # blocks) w = execute_tools tool_manager blocks w"
| "execute_tools tool_manager (ToolUseBlock i n inp # blocks) w =
     (let (out, w1) = tool_manager w n inp;
          tool_result = (case out of
                           Inr v \<Rightarrow> v
                         | Inl e \<Rightarrow> ''Tool execution error: '' @ exc_str e);
          (tool_results, evs, w2) = execute_tools tool_manager blocks w1
      in (\<lparr>tr_type = ''tool_result'', tool_use_id = i, tr_content = tool_result\<rparr> # tool_results,
          ExecuteTool n inp out # evs, w2))"

text \<open>
  The loop \<^verbatim>\<open>for round_count in range(self.MAX_TOOL_ROUNDS)\<close>, by recursion over the
  rounds still to run; \<^verbatim>\<open>break\<close> and the exhausted range both reach the final
  \<^verbatim>\<open>return current_response.content[0].text\<close>. \<^verbatim>\<open>messages\<close> is a local list that is
  only ever appended to; an engine call records the value the list has when the call is made.
\<close>

fun for_rounds ::
  "'w AIGenerator \<Rightarrow> 'w tool_manager \<Rightarrow> py_dict list option \<Rightarrow> string \<Rightarrow> nat list \<Rightarrow>
   message list \<Rightarrow> response \<Rightarrow> 'w \<Rightarrow> (py_exception + string) \<times> event list \<times> 'w" where
  "for_rounds self tool_manager tools_opt system_content [] msgs current_response w =
     (content0_text current_response, [], w)"
| "for_rounds self tool_manager tools_opt system_content (round_count # rest) msgs current_response w =
     (let msgs1 = msgs @ [\<lparr>role = ''assistant'', msg_content = Blocks (content current_response)\<rparr>];
          (tool_results, evs, w1) = execute_tools tool_manager (content current_response) w;
          msgs2 = (if tool_results \<noteq> []
                   then msgs1 @ [\<lparr>role = ''user'', msg_content = Results tool_results\<rparr>]
                   else msgs1);
          is_final_round = (round_count + 1 \<ge> MAX_TOOL_ROUNDS);
          next_params = \<lparr>model = self_model self, temperature = 0, max_tokens = 800,
                         messages = msgs2, system = system_content,
                         tools = None, tool_choice = None\<rparr>;
          next_params = (if \<not> is_final_round \<and> tools_opt \<noteq> None \<and> tools_opt \<noteq> Some []
                         then next_params\<lparr>tools := tools_opt,
                                           tool_choice := Some [(''type'', ''auto'')]\<rparr>
                         else next_params);
          (out, w2) = client self w1 next_params
      in case out of
           Inl e \<Rightarrow> (Inl e, evs @ [Create next_params out], w2)
         | Inr next_response \<Rightarrow>
             if stop_reason next_response \<noteq> ''tool_use''
             then (content0_text next_response, evs @ [Create next_params out], w2)
             else (let (res, evs', w3) =
                         for_rounds self tool_manager tools_opt system_content rest msgs2 next_response w2
                   in (res, evs @ Create next_params out # evs', w3)))"

text \<open>\<^verbatim>\<open>_handle_tool_execution\<close>: the loop over \<^verbatim>\<open>range(self.MAX_TOOL_ROUNDS)\<close>.\<close>

definition handle_tool_execution ::
  "'w AIGenerator \<Rightarrow> response \<Rightarrow> api_params \<Rightarrow> 'w tool_manager \<Rightarrow> 'w \<Rightarrow>
   (py_exception + string) \<times> event list \<times> 'w" where
  "handle_tool_execution self initial_response base_params tool_manager w =
     for_rounds self tool_manager (tools base_params) (system base_params)
       [0..<MAX_TOOL_ROUNDS] (messages base_params) initial_response w"

text \<open>
  \<^verbatim>\<open>generate_response\<close>. An absent or \<^verbatim>\<open>None\<close> argument is \<open>None\<close>; a string or a list is
  truthy when it is not empty, and a tool manager object is truthy when it is given.
\<close>

definition generate_response ::
  "'w AIGenerator \<Rightarrow> string \<Rightarrow> string option \<Rightarrow> py_dict list option \<Rightarrow>
   'w tool_manager option \<Rightarrow> 'w \<Rightarrow> (py_exception + string) \<times> event list \<times> 'w" where
  "generate_response self query conversation_history tools_arg tool_manager w =
     (let system_content =
            (case conversation_history of
               None \<Rightarrow> SYSTEM_PROMPT
             | Some h \<Rightarrow>
                 if h \<noteq> [] then SYSTEM_PROMPT @ ''\<newline>\<newline>Previous conversation:\<newline>'' @ h
                 else SYSTEM_PROMPT);
          api_params = \<lparr>model = self_model self, temperature = 0, max_tokens = 800,
                        messages = [\<lparr>role = ''user'', msg_content = Str query\<rparr>],
                        system = system_content, tools = None, tool_choice = None\<rparr>;
          api_params = (if tools_arg \<noteq> None \<and> tools_arg \<noteq> Some []
                        then api_params\<lparr>tools := tools_arg,
                                        tool_choice := Some [(''type'', ''auto'')]\<rparr>
                        else api_params);
          (out, w1) = client self w api_params
      in case out of
           Inl e \<Rightarrow> (Inl e, [Create api_params out], w1)
         | Inr response \<Rightarrow>
             (case (if stop_reason response = ''tool_use'' then tool_manager else None) of
                Some tm \<Rightarrow>
                  (let (res, evs, w2) = handle_tool_execution self response api_params tm w1
                   in (res, Create api_params out # evs, w2))
              | None \<Rightarrow> (content0_text response, [Create api_params out], w1)))"

section \<open>Reading a trace\<close>

text \<open>Tool events, the engine calls of a trace in order, and the tool-use blocks of a response.\<close>

fun is_tool :: "event \<Rightarrow> bool" where
  "is_tool (ExecuteTool n inp out) = True"
| "is_tool (Create p out) = False"

fun calls :: "event list \<Rightarrow> api_params list" where
  "calls [] = []"
| "calls (Create p out # evs) = p # calls evs"
| "calls (ExecuteTool n inp out # evs) = calls evs"

definition tool_uses :: "response \<Rightarrow> content_block list" where
  "tool_uses r = filter (\<lambda>b. block_type b = ''tool_use'') (content r)"

fun rendered :: "py_exception + string \<Rightarrow> string" where
  "rendered (Inr v) = v"
| "rendered (Inl e) = ''Tool execution error: '' @ exc_str e"

fun result_for :: "content_block \<Rightarrow> event \<Rightarrow> tool_result" where
  "result_for b (ExecuteTool n inp out) =
     \<lparr>tr_type = ''tool_result'', tool_use_id = block_id b, tr_content = rendered out\<rparr>"
| "result_for b (Create p out) =
     \<lparr>tr_type = ''tool_result'', tool_use_id = block_id b, tr_content = []\<rparr>"

fun request_of :: "event \<Rightarrow> string \<times> py_dict" where
  "request_of (ExecuteTool n inp out) = (n, inp)"
| "request_of (Create p out) = ([], [])"


text \<open>
  One round, seen from the transcript \<open>msgs\<close> of the engine call that returned \<open>r\<close>: the
  tool events \<open>T\<close> that follow are the requests of \<open>r\<close> in order, and the next engine
  call \<open>q\<close> carries the transcript extended by the assistant message and, when there are
  results, one combined tool-result message.
\<close>

definition transcript_step :: "message list \<Rightarrow> response \<Rightarrow> event list \<Rightarrow> api_params \<Rightarrow> bool" where
  "transcript_step msgs r T q \<longleftrightarrow>
     map request_of T = map (\<lambda>b. (name b, input b)) (tool_uses r) \<and>
     messages q = msgs @ \<lparr>role = ''assistant'', msg_content = Blocks (content r)\<rparr> #
       (if tool_uses r = [] then []
        else [\<lparr>role = ''user'', msg_content = Results (map2 result_for (tool_uses r) T)\<rparr>])"

fun final :: "py_exception + response \<Rightarrow> py_exception + string" where
  "final (Inl e) = Inl e"
| "final (Inr r) = content0_text r"



section \<open>Scripted collaborators for concrete runs\<close>

text \<open>
  A completion engine that replays a list of responses and fails once the list is used up;
  the state of the world is the number of engine calls made so far.
\<close>

definition scripted :: "response list \<Rightarrow> nat client" where
  "scripted script w p =
     (if w < length script then Inr (script ! w) else Inl (PyExc ''APIError'' ''API down''), Suc w)"

definition demo_generator :: "response list \<Rightarrow> nat AIGenerator" where
  "demo_generator script = \<lparr>client = scripted script, self_model = ''claude-test''\<rparr>"

text \<open>A tool manager whose outline tool raises and whose other tools return a text.\<close>

definition failing_outline :: "nat tool_manager" where
  "failing_outline w n inp =
     (if n = ''get_course_outline'' then Inl (PyExc ''Exception'' ''DB connection failed'')
      else Inr ''tool result text'', w)"

definition demo_tool_defs :: "py_dict list" where
  "demo_tool_defs = [[(''name'', ''get_course_outline'')], [(''name'', ''search_course_content'')]]"

definition outline_then_search :: response where
  "outline_then_search =
     \<lparr>content = [TextBlock ''Let me look'',
                 ToolUseBlock ''t1'' ''get_course_outline'' [(''course_name'', ''ML'')],
                 ToolUseBlock ''t2'' ''search_course_content'' [(''query'', ''lesson 4'')]],
      stop_reason = ''tool_use''\<rparr>"

definition search_only :: response where
  "search_only =
     \<lparr>content = [ToolUseBlock ''t3'' ''search_course_content'' [(''query'', ''neural nets'')]],
      stop_reason = ''tool_use''\<rparr>"

definition answer_and_request :: response where
  "answer_and_request =
     \<lparr>content = [TextBlock ''Two-round answer'',
                 ToolUseBlock ''t4'' ''search_course_content'' [(''query'', ''more'')]],
      stop_reason = ''tool_use''\<rparr>"

definition plain_answer :: response where
  "plain_answer = \<lparr>content = [TextBlock ''Enough info''], stop_reason = ''end_turn''\<rparr>"

definition empty_answer :: response where
  "empty_answer = \<lparr>content = [], stop_reason = ''end_turn''\<rparr>"

definition truncated_request :: response where
  "truncated_request =
     \<lparr>content = [ToolUseBlock ''t5'' ''search_course_content'' [(''query'', ''neural'')]],
      stop_reason = ''max_tokens''\<rparr>"

text \<open>The three engine calls and the trace of a query that asks for tools on every response.\<close>

definition call1 :: api_params where
  "call1 = \<lparr>model = ''claude-test'', temperature = 0, max_tokens = 800,
            messages = [\<lparr>role = ''user'', msg_content = Str ''What is in lesson 4?''\<rparr>],
            system = SYSTEM_PROMPT @ ''\<newline>\<newline>Previous conversation:\<newline>'' @ ''User: hi'',
            tools = Some demo_tool_defs, tool_choice = Some [(''type'', ''auto'')]\<rparr>"

definition round1_results :: "tool_result list" where
  "round1_results =
     [\<lparr>tr_type = ''tool_result'', tool_use_id = ''t1'',
       tr_content = ''Tool execution error: DB connection failed''\<rparr>,
      \<lparr>tr_type = ''tool_result'', tool_use_id = ''t2'', tr_content = ''tool result text''\<rparr>]"

definition call2 :: api_params where
  "call2 = call1\<lparr>messages :=
     [\<lparr>role = ''user'', msg_content = Str ''What is in lesson 4?''\<rparr>,
      \<lparr>role = ''assistant'', msg_content = Blocks (content outline_then_search)\<rparr>,
      \<lparr>role = ''user'', msg_content = Results round1_results\<rparr>]\<rparr>"

definition call3 :: api_params where
  "call3 = call2\<lparr>messages := messages call2 @
     [\<lparr>role = ''assistant'', msg_content = Blocks (content search_only)\<rparr>,
      \<lparr>role = ''user'', msg_content = Results
         [\<lparr>tr_type = ''tool_result'', tool_use_id = ''t3'', tr_content = ''tool result text''\<rparr>]\<rparr>],
     tools := None, tool_choice := None\<rparr>"

definition round1_dispatch :: "event list" where
  "round1_dispatch =
     [ExecuteTool ''get_course_outline'' [(''course_name'', ''ML'')]
        (Inl (PyExc ''Exception'' ''DB connection failed'')),
      ExecuteTool ''search_course_content'' [(''query'', ''lesson 4'')] (Inr ''tool result text'')]"

definition round2_dispatch :: "event list" where
  "round2_dispatch =
     [ExecuteTool ''search_course_content'' [(''query'', ''neural nets'')] (Inr ''tool result text'')]"

definition two_rounds_trace :: "event list" where
  "two_rounds_trace =
     Create call1 (Inr outline_then_search) # round1_dispatch @
     Create call2 (Inr search_only) # round2_dispatch @
     [Create call3 (Inr answer_and_request)]"

text \<open>A query answered after one tool round, and the same query with the engine failing.\<close>

definition exit_call1 :: api_params where
  "exit_call1 = \<lparr>model = ''claude-test'', temperature = 0, max_tokens = 800,
            messages = [\<lparr>role = ''user'', msg_content = Str ''What is ML?''\<rparr>],
            system = SYSTEM_PROMPT,
            tools = Some demo_tool_defs, tool_choice = Some [(''type'', ''auto'')]\<rparr>"

definition exit_call2 :: api_params where
  "exit_call2 = exit_call1\<lparr>messages :=
     [\<lparr>role = ''user'', msg_content = Str ''What is ML?''\<rparr>,
      \<lparr>role = ''assistant'', msg_content = Blocks (content search_only)\<rparr>,
      \<lparr>role = ''user'', msg_content = Results
         [\<lparr>tr_type = ''tool_result'', tool_use_id = ''t3'', tr_content = ''tool result text''\<rparr>]\<rparr>]\<rparr>"

definition early_exit_trace :: "event list" where
  "early_exit_trace =
     Create exit_call1 (Inr search_only) # round2_dispatch @
     [Create exit_call2 (Inr plain_answer)]"

definition engine_failure_trace :: "event list" where
  "engine_failure_trace =
     Create exit_call1 (Inr search_only) # round2_dispatch @
     [Create exit_call2 (Inl (PyExc ''APIError'' ''API down''))]"


section \<open>Facts about the loops\<close>

lemma execute_tools_events:
  "execute_tools tm blocks w = (results, evs, w') \<Longrightarrow>
   list_all is_tool evs \<and>
   map request_of evs = map (\<lambda>b. (name b, input b)) (filter (\<lambda>b. block_type b = ''tool_use'') blocks) \<and>
   results = map2 result_for (filter (\<lambda>b. block_type b = ''tool_use'') blocks) evs"
proof (induction tm blocks w arbitrary: results evs w' rule: execute_tools.induct)
  case (1 tm w)
  then show ?case by simp
next
  case (2 tm t blocks w)
  then show ?case by simp
next
  case (3 tm i n inp blocks w)
  then show ?case
    by (auto simp: Let_def split: prod.splits sum.splits)
qed

lemma split_first_create:
  "list_all is_tool T \<Longrightarrow> pre @ Create p out # rest = T @ Create q out' # E \<Longrightarrow>
   (pre = T \<and> p = q \<and> out = out' \<and> rest = E) \<or>
   (\<exists>pre'. pre = T @ Create q out' # pre' \<and> E = pre' @ Create p out # rest)"
proof (induction T arbitrary: pre)
  case Nil
  then show ?case by (cases pre) auto
next
  case (Cons t T)
  then show ?case by (cases pre) auto
qed

lemma map2_eq_Nil_iff: "length xs = length ys \<Longrightarrow> map2 f xs ys = [] \<longleftrightarrow> xs = []"
  by (cases xs; cases ys) auto

lemma for_rounds_unfold:
  assumes "for_rounds self tm ts sys (rc # rest) msgs cur w = (res, E, w')"
  obtains T q out E' w1 w2 where
    "execute_tools tm (content cur) w = (map2 result_for (tool_uses cur) T, T, w1)"
    "client self w1 q = (out, w2)"
    "E = T @ Create q out # E'" "list_all is_tool T" "transcript_step msgs cur T q"
    "tools q = (if rc + 1 < MAX_TOOL_ROUNDS \<and> ts \<noteq> None \<and> ts \<noteq> Some [] then ts else None)"
    "tool_choice q = (if rc + 1 < MAX_TOOL_ROUNDS \<and> ts \<noteq> None \<and> ts \<noteq> Some []
                      then Some [(''type'', ''auto'')] else None)"
    "system q = sys"
    "(\<exists>e. out = Inl e \<and> E' = [] \<and> res = Inl e \<and> w' = w2) \<or>
     (\<exists>r. out = Inr r \<and> stop_reason r \<noteq> ''tool_use'' \<and> E' = [] \<and> res = content0_text r \<and>
          w' = w2) \<or>
     (\<exists>r. out = Inr r \<and> stop_reason r = ''tool_use'' \<and>
        for_rounds self tm ts sys rest (messages q) r w2 = (res, E', w'))"
proof -
  obtain results T w1 where ex: "execute_tools tm (content cur) w = (results, T, w1)"
    by (cases "execute_tools tm (content cur) w") auto
  note facts = execute_tools_events [OF ex, folded tool_uses_def]
  have len: "length (tool_uses cur) = length T"
    using facts by (metis length_map)
  have "T = [] \<longleftrightarrow> tool_uses cur = []"
    using len by (metis length_0_conv)
  then have res_nil: "results = [] \<longleftrightarrow> tool_uses cur = []"
    using facts by auto
  define msgs2 where "msgs2 = msgs @ \<lparr>role = ''assistant'', msg_content = Blocks (content cur)\<rparr> #
       (if tool_uses cur = [] then []
        else [\<lparr>role = ''user'', msg_content = Results (map2 result_for (tool_uses cur) T)\<rparr>])"
  define base where "base = \<lparr>model = self_model self, temperature = 0, max_tokens = 800,
                         messages = msgs2, system = sys, tools = None, tool_choice = None\<rparr>"
  define q where "q = (if \<not> (rc + 1 \<ge> MAX_TOOL_ROUNDS) \<and> ts \<noteq> None \<and> ts \<noteq> Some []
                         then base\<lparr>tools := ts, tool_choice := Some [(''type'', ''auto'')]\<rparr>
                         else base)"
  obtain out w2 where c: "client self w1 q = (out, w2)"
    by (cases "client self w1 q") auto
  have eq: "for_rounds self tm ts sys (rc # rest) msgs cur w =
    (case out of
           Inl e \<Rightarrow> (Inl e, T @ [Create q out], w2)
         | Inr next_response \<Rightarrow>
             if stop_reason next_response \<noteq> ''tool_use''
             then (content0_text next_response, T @ [Create q out], w2)
             else (let (res, evs', w3) = for_rounds self tm ts sys rest msgs2 next_response w2
                   in (res, T @ Create q out # evs', w3)))"
    using c facts res_nil unfolding q_def base_def msgs2_def
    by (cases "tool_uses cur = []";
        cases "\<not> (rc + 1 \<ge> MAX_TOOL_ROUNDS) \<and> ts \<noteq> None \<and> ts \<noteq> Some []")
       (auto simp add: ex Let_def split: sum.splits)
  have q1: "transcript_step msgs cur T q"
    using facts by (simp add: transcript_step_def q_def base_def msgs2_def)
  have q2: "tools q = (if rc + 1 < MAX_TOOL_ROUNDS \<and> ts \<noteq> None \<and> ts \<noteq> Some [] then ts else None)"
    "tool_choice q = (if rc + 1 < MAX_TOOL_ROUNDS \<and> ts \<noteq> None \<and> ts \<noteq> Some []
                      then Some [(''type'', ''auto'')] else None)"
    "system q = sys" "messages q = msgs2"
    by (simp_all add: q_def base_def not_le)
  have ex': "execute_tools tm (content cur) w = (map2 result_for (tool_uses cur) T, T, w1)"
    using ex facts by simp
  show ?thesis
  proof (cases out)
    case (Inl e)
    with assms eq have "E = T @ Create q out # []" "res = Inl e" "w' = w2" by auto
    with Inl facts q1 q2 ex' c show ?thesis by (intro that [of T w1 q out w2 "[]"]) auto
  next
    case (Inr r)
    show ?thesis
    proof (cases "stop_reason r = ''tool_use''")
      case False
      with Inr assms eq have "E = T @ Create q out # []" "res = content0_text r" "w' = w2"
        by auto
      with Inr False facts q1 q2 ex' c show ?thesis by (intro that [of T w1 q out w2 "[]"]) auto
    next
      case True
      obtain res' E' w3 where rec: "for_rounds self tm ts sys rest msgs2 r w2 = (res', E', w3)"
        by (cases "for_rounds self tm ts sys rest msgs2 r w2") auto
      with Inr True assms eq have "E = T @ Create q out # E'" "res = res'" "w' = w3" by auto
      with Inr True facts q1 q2 rec ex' c show ?thesis by (intro that [of T w1 q out w2 E']) auto
    qed
  qed
qed


lemma for_rounds_step:
  assumes "for_rounds self tm ts sys (rc # rest) msgs cur w = (res, E, w')"
  obtains T q out E' where
    "E = T @ Create q out # E'" "list_all is_tool T" "transcript_step msgs cur T q"
    "tools q = (if rc + 1 < MAX_TOOL_ROUNDS \<and> ts \<noteq> None \<and> ts \<noteq> Some [] then ts else None)"
    "tool_choice q = (if rc + 1 < MAX_TOOL_ROUNDS \<and> ts \<noteq> None \<and> ts \<noteq> Some []
                      then Some [(''type'', ''auto'')] else None)"
    "system q = sys"
    "(\<exists>e. out = Inl e \<and> E' = [] \<and> res = Inl e) \<or>
     (\<exists>r. out = Inr r \<and> stop_reason r \<noteq> ''tool_use'' \<and> E' = [] \<and> res = content0_text r) \<or>
     (\<exists>r w2. out = Inr r \<and> stop_reason r = ''tool_use'' \<and>
        for_rounds self tm ts sys rest (messages q) r w2 = (res, E', w'))"
proof -
  from assms obtain T q out E' w1 w2 where
    "E = T @ Create q out # E'" "list_all is_tool T" "transcript_step msgs cur T q"
    "tools q = (if rc + 1 < MAX_TOOL_ROUNDS \<and> ts \<noteq> None \<and> ts \<noteq> Some [] then ts else None)"
    "tool_choice q = (if rc + 1 < MAX_TOOL_ROUNDS \<and> ts \<noteq> None \<and> ts \<noteq> Some []
                      then Some [(''type'', ''auto'')] else None)"
    "system q = sys"
    "(\<exists>e. out = Inl e \<and> E' = [] \<and> res = Inl e \<and> w' = w2) \<or>
     (\<exists>r. out = Inr r \<and> stop_reason r \<noteq> ''tool_use'' \<and> E' = [] \<and> res = content0_text r \<and>
          w' = w2) \<or>
     (\<exists>r. out = Inr r \<and> stop_reason r = ''tool_use'' \<and>
        for_rounds self tm ts sys rest (messages q) r w2 = (res, E', w'))"
    by (rule for_rounds_unfold)
  then show ?thesis
    by (intro that [of T q out E']) auto
qed

lemma for_rounds_adjacent:
  "for_rounds self tm ts sys rs msgs cur w = (res, E, w') \<Longrightarrow>
   messages p0 = msgs \<Longrightarrow> stop_reason cur = ''tool_use'' \<Longrightarrow>
   Create p0 (Inr cur) # E = pre @ Create p out # T @ Create q out' # post \<Longrightarrow>
   list_all is_tool T \<Longrightarrow>
   \<exists>r. out = Inr r \<and> stop_reason r = ''tool_use'' \<and> transcript_step (messages p) r T q"
proof (induction rs arbitrary: msgs cur w p0 pre E)
  case Nil
  then show ?case by (cases pre) auto
next
  case (Cons rc rest)
  from Cons.prems(1) obtain T0 q0 out0 E' where
    E: "E = T0 @ Create q0 out0 # E'" and T0: "list_all is_tool T0" and
    step: "transcript_step msgs cur T0 q0" and
    alt: "(\<exists>e. out0 = Inl e \<and> E' = [] \<and> res = Inl e) \<or>
     (\<exists>r. out0 = Inr r \<and> stop_reason r \<noteq> ''tool_use'' \<and> E' = [] \<and> res = content0_text r) \<or>
     (\<exists>r w2. out0 = Inr r \<and> stop_reason r = ''tool_use'' \<and>
        for_rounds self tm ts sys rest (messages q0) r w2 = (res, E', w'))"
    by (rule for_rounds_step)
  have rec: "\<exists>r w2. out0 = Inr r \<and> stop_reason r = ''tool_use'' \<and>
        for_rounds self tm ts sys rest (messages q0) r w2 = (res, E', w')" if "E' \<noteq> []"
    using alt that by auto
  show ?case
  proof (cases pre)
    case Nil
    with Cons.prems(4) E have eq: "p = p0" "out = Inr cur"
      and "T @ Create q out' # post = T0 @ Create q0 out0 # E'"
      by auto
    from split_first_create [OF T0 this(3)] Cons.prems(5) have "T = T0" "q = q0"
      by auto
    with step eq Cons.prems(2,3) show ?thesis by auto
  next
    case (Cons x pre')
    with Cons.prems(4) E
    have "pre' @ Create p out # (T @ Create q out' # post) = T0 @ Create q0 out0 # E'"
      by auto
    from split_first_create [OF T0 this]
    consider (a) "pre' = T0" "p = q0" "out = out0" "T @ Create q out' # post = E'"
      | (b) pre'' where "pre' = T0 @ Create q0 out0 # pre''"
          "E' = pre'' @ Create p out # T @ Create q out' # post"
      by auto
    then show ?thesis
    proof cases
      case a
      then have "E' \<noteq> []" by auto
      from rec [OF this] obtain r w2 where r: "out0 = Inr r" "stop_reason r = ''tool_use''"
        "for_rounds self tm ts sys rest (messages q0) r w2 = (res, E', w')" by auto
      have "Create q0 (Inr r) # E' = [] @ Create p out # T @ Create q out' # post"
        using a r by simp
      from Cons.IH [OF r(3) refl r(2) this Cons.prems(5)] show ?thesis .
    next
      case b
      then have "E' \<noteq> []" by auto
      from rec [OF this] obtain r w2 where r: "out0 = Inr r" "stop_reason r = ''tool_use''"
        "for_rounds self tm ts sys rest (messages q0) r w2 = (res, E', w')" by auto
      have "Create q0 (Inr r) # E' = (Create q0 (Inr r) # pre'') @ Create p out # T @ Create q out' # post"
        using b by simp
      from Cons.IH [OF r(3) refl r(2) this Cons.prems(5)] show ?thesis .
    qed
  qed
qed

lemma for_rounds_last:
  "for_rounds self tm ts sys rs msgs cur w = (res, E, w') \<Longrightarrow>
   Create p0 (Inr cur) # E = pre @ Create p out # T \<Longrightarrow>
   list_all is_tool T \<Longrightarrow>
   T = [] \<and> res = final out"
proof (induction rs arbitrary: msgs cur w p0 pre E)
  case Nil
  then show ?case by (cases pre) auto
next
  case (Cons rc rest)
  from Cons.prems(1) obtain T0 q0 out0 E' where
    E: "E = T0 @ Create q0 out0 # E'" and T0: "list_all is_tool T0" and
    alt: "(\<exists>e. out0 = Inl e \<and> E' = [] \<and> res = Inl e) \<or>
     (\<exists>r. out0 = Inr r \<and> stop_reason r \<noteq> ''tool_use'' \<and> E' = [] \<and> res = content0_text r) \<or>
     (\<exists>r w2. out0 = Inr r \<and> stop_reason r = ''tool_use'' \<and>
        for_rounds self tm ts sys rest (messages q0) r w2 = (res, E', w'))"
    by (rule for_rounds_step)
  show ?case
  proof (cases pre)
    case Nil
    with Cons.prems(2) E have "T = T0 @ Create q0 out0 # E'" by auto
    with Cons.prems(3) show ?thesis by auto
  next
    case (Cons x pre')
    with Cons.prems(2) E
    have "pre' @ Create p out # T = T0 @ Create q0 out0 # E'"
      by auto
    from split_first_create [OF T0 this]
    consider (a) "pre' = T0" "p = q0" "out = out0" "T = E'"
      | (b) pre'' where "pre' = T0 @ Create q0 out0 # pre''" "E' = pre'' @ Create p out # T"
      by auto
    then show ?thesis
    proof cases
      case a
      from alt show ?thesis
      proof (elim disjE exE conjE)
        fix r w2
        assume r: "out0 = Inr r" "stop_reason r = ''tool_use''"
          "for_rounds self tm ts sys rest (messages q0) r w2 = (res, E', w')"
        have "Create q0 (Inr r) # E' = [] @ Create p out # T"
          using a r by simp
        from Cons.IH [OF r(3) this Cons.prems(3)] show ?thesis .
      qed (use a in auto)
    next
      case b
      then have "E' \<noteq> []" by auto
      with alt obtain r w2 where r: "out0 = Inr r" "stop_reason r = ''tool_use''"
        "for_rounds self tm ts sys rest (messages q0) r w2 = (res, E', w')" by auto
      have "Create q0 (Inr r) # E' = (Create q0 (Inr r) # pre'') @ Create p out # T"
        using b by simp
      from Cons.IH [OF r(3) this Cons.prems(3)] show ?thesis .
    qed
  qed
qed


lemma generate_response_unfold:
  assumes "generate_response self query h ts tmo w = (res, trace, w')"
  obtains p1 out1 E w1 where
    "client self w p1 = (out1, w1)"
    "trace = Create p1 out1 # E"
    "messages p1 = [\<lparr>role = ''user'', msg_content = Str query\<rparr>]"
    "system p1 = (case h of None \<Rightarrow> SYSTEM_PROMPT
                  | Some hs \<Rightarrow> if hs \<noteq> [] then SYSTEM_PROMPT @ ''\<newline>\<newline>Previous conversation:\<newline>'' @ hs
                               else SYSTEM_PROMPT)"
    "tools p1 = (if ts \<noteq> None \<and> ts \<noteq> Some [] then ts else None)"
    "tool_choice p1 = (if ts \<noteq> None \<and> ts \<noteq> Some [] then Some [(''type'', ''auto'')] else None)"
    "(E = [] \<and> res = final out1 \<and> w' = w1 \<and>
        (tmo = None \<or> (\<forall>r. out1 = Inr r \<longrightarrow> stop_reason r \<noteq> ''tool_use''))) \<or>
     (\<exists>r tm. out1 = Inr r \<and> stop_reason r = ''tool_use'' \<and> tmo = Some tm \<and>
        for_rounds self tm (tools p1) (system p1) [0..<MAX_TOOL_ROUNDS] (messages p1) r w1 = (res, E, w'))"
proof -
  define sysc where "sysc = (case h of None \<Rightarrow> SYSTEM_PROMPT
                  | Some hs \<Rightarrow> if hs \<noteq> [] then SYSTEM_PROMPT @ ''\<newline>\<newline>Previous conversation:\<newline>'' @ hs
                               else SYSTEM_PROMPT)"
  define base where "base = \<lparr>model = self_model self, temperature = 0, max_tokens = 800,
                        messages = [\<lparr>role = ''user'', msg_content = Str query\<rparr>],
                        system = sysc, tools = None, tool_choice = None\<rparr>"
  define p1 where "p1 = (if ts \<noteq> None \<and> ts \<noteq> Some []
                        then base\<lparr>tools := ts, tool_choice := Some [(''type'', ''auto'')]\<rparr>
                        else base)"
  obtain out1 w1 where c: "client self w p1 = (out1, w1)"
    by (cases "client self w p1") auto
  have eq: "generate_response self query h ts tmo w =
      (case out1 of
           Inl e \<Rightarrow> (Inl e, [Create p1 out1], w1)
         | Inr response \<Rightarrow>
             (case (if stop_reason response = ''tool_use'' then tmo else None) of
                Some tm \<Rightarrow>
                  (let (res, evs, w2) = for_rounds self tm (tools p1) (system p1)
                          [0..<MAX_TOOL_ROUNDS] (messages p1) response w1
                   in (res, Create p1 out1 # evs, w2))
              | None \<Rightarrow> (content0_text response, [Create p1 out1], w1)))"
    using c unfolding generate_response_def handle_tool_execution_def Let_def p1_def base_def sysc_def
    by (cases "ts \<noteq> None \<and> ts \<noteq> Some []") (auto split: sum.splits option.splits)
  have p: "messages p1 = [\<lparr>role = ''user'', msg_content = Str query\<rparr>]"
    "system p1 = sysc"
    "tools p1 = (if ts \<noteq> None \<and> ts \<noteq> Some [] then ts else None)"
    "tool_choice p1 = (if ts \<noteq> None \<and> ts \<noteq> Some [] then Some [(''type'', ''auto'')] else None)"
    by (simp_all add: p1_def base_def)
  show ?thesis
  proof (cases out1)
    case (Inl e)
    with assms eq have "trace = Create p1 out1 # []" "res = final out1" "w' = w1" by auto
    with Inl p c show ?thesis unfolding sysc_def by (intro that [of p1 out1 w1 "[]"]) auto
  next
    case (Inr r)
    show ?thesis
    proof (cases "stop_reason r = ''tool_use'' \<and> tmo \<noteq> None")
      case False
      with Inr assms eq have "trace = Create p1 out1 # []" "res = final out1" "w' = w1"
        by (auto split: option.splits if_splits)
      with Inr False p c show ?thesis unfolding sysc_def by (intro that [of p1 out1 w1 "[]"]) auto
    next
      case True
      then obtain tm where tm: "tmo = Some tm" by auto
      obtain res' E w3 where rec: "for_rounds self tm (tools p1) (system p1)
                          [0..<MAX_TOOL_ROUNDS] (messages p1) r w1 = (res', E, w3)"
        by (cases "for_rounds self tm (tools p1) (system p1)
                          [0..<MAX_TOOL_ROUNDS] (messages p1) r w1") auto
      with Inr True tm assms eq have "trace = Create p1 out1 # E" "res = res'" "w' = w3" by auto
      with Inr True tm rec p c show ?thesis unfolding sysc_def by (intro that [of p1 out1 w1 E]) auto
    qed
  qed
qed

lemma generate_response_cases:
  assumes "generate_response self query h ts tmo w = (res, trace, w')"
  obtains p1 out1 E where
    "trace = Create p1 out1 # E"
    "messages p1 = [\<lparr>role = ''user'', msg_content = Str query\<rparr>]"
    "system p1 = (case h of None \<Rightarrow> SYSTEM_PROMPT
                  | Some hs \<Rightarrow> if hs \<noteq> [] then SYSTEM_PROMPT @ ''\<newline>\<newline>Previous conversation:\<newline>'' @ hs
                               else SYSTEM_PROMPT)"
    "tools p1 = (if ts \<noteq> None \<and> ts \<noteq> Some [] then ts else None)"
    "tool_choice p1 = (if ts \<noteq> None \<and> ts \<noteq> Some [] then Some [(''type'', ''auto'')] else None)"
    "(E = [] \<and> res = final out1 \<and> (tmo = None \<or> (\<forall>r. out1 = Inr r \<longrightarrow> stop_reason r \<noteq> ''tool_use''))) \<or>
     (\<exists>r tm w1. out1 = Inr r \<and> stop_reason r = ''tool_use'' \<and> tmo = Some tm \<and>
        for_rounds self tm (tools p1) (system p1) [0..<MAX_TOOL_ROUNDS] (messages p1) r w1 = (res, E, w'))"
proof -
  from assms obtain p1 out1 E w1 where
    "trace = Create p1 out1 # E"
    "messages p1 = [\<lparr>role = ''user'', msg_content = Str query\<rparr>]"
    "system p1 = (case h of None \<Rightarrow> SYSTEM_PROMPT
                  | Some hs \<Rightarrow> if hs \<noteq> [] then SYSTEM_PROMPT @ ''\<newline>\<newline>Previous conversation:\<newline>'' @ hs
                               else SYSTEM_PROMPT)"
    "tools p1 = (if ts \<noteq> None \<and> ts \<noteq> Some [] then ts else None)"
    "tool_choice p1 = (if ts \<noteq> None \<and> ts \<noteq> Some [] then Some [(''type'', ''auto'')] else None)"
    "(E = [] \<and> res = final out1 \<and> w' = w1 \<and>
        (tmo = None \<or> (\<forall>r. out1 = Inr r \<longrightarrow> stop_reason r \<noteq> ''tool_use''))) \<or>
     (\<exists>r tm. out1 = Inr r \<and> stop_reason r = ''tool_use'' \<and> tmo = Some tm \<and>
        for_rounds self tm (tools p1) (system p1) [0..<MAX_TOOL_ROUNDS] (messages p1) r w1 = (res, E, w'))"
    by (rule generate_response_unfold)
  then show ?thesis
    by (intro that [of p1 out1 E]) auto
qed





lemma generate_response_adjacent:
  assumes run: "generate_response self query h ts tmo w = (res, trace, w')"
    and dec: "trace = pre @ Create p out # T @ Create q out' # post"
    and T: "list_all is_tool T"
  shows "\<exists>r. out = Inr r \<and> stop_reason r = ''tool_use'' \<and> transcript_step (messages p) r T q"
proof -
  from run obtain p1 out1 E where tr: "trace = Create p1 out1 # E" and
    alt: "(E = [] \<and> res = final out1 \<and> (tmo = None \<or> (\<forall>r. out1 = Inr r \<longrightarrow> stop_reason r \<noteq> ''tool_use''))) \<or>
     (\<exists>r tm w1. out1 = Inr r \<and> stop_reason r = ''tool_use'' \<and> tmo = Some tm \<and>
        for_rounds self tm (tools p1) (system p1) [0..<MAX_TOOL_ROUNDS] (messages p1) r w1 = (res, E, w'))"
    by (rule generate_response_cases)
  from tr dec have "E \<noteq> []" by (cases pre) auto
  with alt obtain r tm w1 where r: "out1 = Inr r" "stop_reason r = ''tool_use''"
    "for_rounds self tm (tools p1) (system p1) [0..<MAX_TOOL_ROUNDS] (messages p1) r w1 = (res, E, w')"
    by auto
  from tr dec r have "Create p1 (Inr r) # E = pre @ Create p out # T @ Create q out' # post"
    by simp
  from for_rounds_adjacent [OF r(3) refl r(2) this T] show ?thesis .
qed

lemma generate_response_last:
  assumes run: "generate_response self query h ts tmo w = (res, trace, w')"
    and dec: "trace = pre @ Create p out # T"
    and T: "list_all is_tool T"
  shows "T = [] \<and> res = final out"
proof -
  from run obtain p1 out1 E where tr: "trace = Create p1 out1 # E" and
    alt: "(E = [] \<and> res = final out1 \<and> (tmo = None \<or> (\<forall>r. out1 = Inr r \<longrightarrow> stop_reason r \<noteq> ''tool_use''))) \<or>
     (\<exists>r tm w1. out1 = Inr r \<and> stop_reason r = ''tool_use'' \<and> tmo = Some tm \<and>
        for_rounds self tm (tools p1) (system p1) [0..<MAX_TOOL_ROUNDS] (messages p1) r w1 = (res, E, w'))"
    by (rule generate_response_cases)
  from alt consider (one) "E = []" "res = final out1"
    | (more) r tm w1 where "out1 = Inr r" "stop_reason r = ''tool_use''"
        "for_rounds self tm (tools p1) (system p1) [0..<MAX_TOOL_ROUNDS] (messages p1) r w1 = (res, E, w')"
    by blast
  then show ?thesis
  proof cases
    case one
    with tr dec show ?thesis by (cases pre) auto
  next
    case more
    with tr dec have "Create p1 (Inr r) # E = pre @ Create p out # T"
      by simp
    from for_rounds_last [OF more(3) this T] show ?thesis .
  qed
qed

text \<open>What follows an engine call in a trace: tool events, then the end or the next call.\<close>

lemma after_call:
  obtains T where "rest = T" "list_all is_tool T"
  | T q out' post where "rest = T @ Create q out' # post" "list_all is_tool T"
proof (cases "dropWhile is_tool rest")
  case Nil
  then have "list_all is_tool rest"
    by (metis dropWhile_eq_Nil_conv list_all_iff)
  then show ?thesis using that(1) by blast
next
  case (Cons x post)
  then have "\<not> is_tool x" by (metis hd_dropWhile list.distinct(1) list.sel(1))
  then obtain q out' where "x = Create q out'" by (cases x) auto
  moreover have "rest = takeWhile is_tool rest @ dropWhile is_tool rest" by simp
  moreover have "list_all is_tool (takeWhile is_tool rest)"
    by (metis list_all_iff set_takeWhileD)
  ultimately show ?thesis using that(2) Cons by metis
qed

lemma generate_response_terminal:
  assumes run: "generate_response self query h ts tmo w = (res, trace, w')"
    and dec: "trace = pre @ Create p out # rest"
    and stop: "\<forall>r. out = Inr r \<longrightarrow> stop_reason r \<noteq> ''tool_use''"
  shows "rest = [] \<and> res = final out"
proof (rule after_call [of rest])
  fix T assume "rest = T" "list_all is_tool T"
  with generate_response_last [OF run] dec show ?thesis by auto
next
  fix T q out' post
  assume "rest = T @ Create q out' # post" "list_all is_tool T"
  with generate_response_adjacent [OF run] dec stop show ?thesis by blast
qed


lemma calls_append: "calls (xs @ ys) = calls xs @ calls ys"
  by (induction xs rule: calls.induct) auto

lemma calls_tools: "list_all is_tool T \<Longrightarrow> calls T = []"
  by (induction T rule: calls.induct) auto

lemma for_rounds_calls:
  "for_rounds self tm ts sys rs msgs cur w = (res, E, w') \<Longrightarrow>
   length (calls E) \<le> length rs \<and>
   list_all2 (\<lambda>rc q. MAX_TOOL_ROUNDS \<le> rc + 1 \<longrightarrow> tools q = None \<and> tool_choice q = None)
     (take (length (calls E)) rs) (calls E)"
proof (induction rs arbitrary: msgs cur w E)
  case Nil
  then show ?case by auto
next
  case (Cons rc rest)
  from Cons.prems(1) obtain T0 q0 out0 E' where
    E: "E = T0 @ Create q0 out0 # E'" and T0: "list_all is_tool T0" and
    q0: "tools q0 = (if rc + 1 < MAX_TOOL_ROUNDS \<and> ts \<noteq> None \<and> ts \<noteq> Some [] then ts else None)"
    "tool_choice q0 = (if rc + 1 < MAX_TOOL_ROUNDS \<and> ts \<noteq> None \<and> ts \<noteq> Some []
                      then Some [(''type'', ''auto'')] else None)" and
    alt: "(\<exists>e. out0 = Inl e \<and> E' = [] \<and> res = Inl e) \<or>
     (\<exists>r. out0 = Inr r \<and> stop_reason r \<noteq> ''tool_use'' \<and> E' = [] \<and> res = content0_text r) \<or>
     (\<exists>r w2. out0 = Inr r \<and> stop_reason r = ''tool_use'' \<and>
        for_rounds self tm ts sys rest (messages q0) r w2 = (res, E', w'))"
    by (rule for_rounds_step)
  have cs: "calls E = q0 # calls E'"
    using E T0 by (simp add: calls_append calls_tools)
  have "length (calls E') \<le> length rest \<and>
   list_all2 (\<lambda>rc q. MAX_TOOL_ROUNDS \<le> rc + 1 \<longrightarrow> tools q = None \<and> tool_choice q = None)
     (take (length (calls E')) rest) (calls E')"
    using alt Cons.IH by auto
  with cs q0 show ?case by auto
qed

lemma for_rounds_all_tool_use:
  "for_rounds self tm ts sys rs msgs cur w = (res, E, w') \<Longrightarrow>
   (\<And>p out. Create p out \<in> set E \<Longrightarrow> \<exists>r. out = Inr r \<and> stop_reason r = ''tool_use'') \<Longrightarrow>
   length (calls E) = length rs"
proof (induction rs arbitrary: msgs cur w E)
  case Nil
  then show ?case by auto
next
  case (Cons rc rest)
  from Cons.prems(1) obtain T0 q0 out0 E' where
    E: "E = T0 @ Create q0 out0 # E'" and T0: "list_all is_tool T0" and
    alt: "(\<exists>e. out0 = Inl e \<and> E' = [] \<and> res = Inl e) \<or>
     (\<exists>r. out0 = Inr r \<and> stop_reason r \<noteq> ''tool_use'' \<and> E' = [] \<and> res = content0_text r) \<or>
     (\<exists>r w2. out0 = Inr r \<and> stop_reason r = ''tool_use'' \<and>
        for_rounds self tm ts sys rest (messages q0) r w2 = (res, E', w'))"
    by (rule for_rounds_step)
  have cs: "calls E = q0 # calls E'"
    using E T0 by (simp add: calls_append calls_tools)
  from Cons.prems(2) [of q0 out0] E obtain r where r: "out0 = Inr r" "stop_reason r = ''tool_use''"
    by auto
  with alt obtain w2 where "for_rounds self tm ts sys rest (messages q0) r w2 = (res, E', w')"
    by auto
  from Cons.IH [OF this] Cons.prems(2) E have "length (calls E') = length rest"
    by auto
  with cs show ?case by simp
qed

lemma for_rounds_params:
  "for_rounds self tm ts sys rs msgs cur w = (res, E, w') \<Longrightarrow> q \<in> set (calls E) \<Longrightarrow>
   system q = sys \<and> (ts = None \<longrightarrow> tools q = None \<and> tool_choice q = None)"
proof (induction rs arbitrary: msgs cur w E)
  case Nil
  then show ?case by auto
next
  case (Cons rc rest)
  from Cons.prems(1) obtain T0 q0 out0 E' where
    E: "E = T0 @ Create q0 out0 # E'" and T0: "list_all is_tool T0" and
    q0: "tools q0 = (if rc + 1 < MAX_TOOL_ROUNDS \<and> ts \<noteq> None \<and> ts \<noteq> Some [] then ts else None)"
    "tool_choice q0 = (if rc + 1 < MAX_TOOL_ROUNDS \<and> ts \<noteq> None \<and> ts \<noteq> Some []
                      then Some [(''type'', ''auto'')] else None)"
    "system q0 = sys" and
    alt: "(\<exists>e. out0 = Inl e \<and> E' = [] \<and> res = Inl e) \<or>
     (\<exists>r. out0 = Inr r \<and> stop_reason r \<noteq> ''tool_use'' \<and> E' = [] \<and> res = content0_text r) \<or>
     (\<exists>r w2. out0 = Inr r \<and> stop_reason r = ''tool_use'' \<and>
        for_rounds self tm ts sys rest (messages q0) r w2 = (res, E', w'))"
    by (rule for_rounds_step)
  have cs: "calls E = q0 # calls E'"
    using E T0 by (simp add: calls_append calls_tools)
  show ?case
  proof (cases "q = q0")
    case True
    with q0 show ?thesis by auto
  next
    case False
    with cs Cons.prems(2) have "q \<in> set (calls E')" by auto
    with alt Cons.IH show ?thesis by auto
  qed
qed


lemma results_ids:
  "length bs = length T \<Longrightarrow> map tool_use_id (map2 result_for bs T) = map block_id bs"
proof (induction bs T rule: list_induct2)
  case Nil
  then show ?case by simp
next
  case (Cons b bs ev T)
  then show ?case by (cases ev) auto
qed

lemma generate_response_params:
  assumes run: "generate_response self query h ts tmo w = (res, trace, w')"
    and q: "q \<in> set (calls trace)"
  shows "system q = (case h of None \<Rightarrow> SYSTEM_PROMPT
                  | Some hs \<Rightarrow> if hs \<noteq> [] then SYSTEM_PROMPT @ ''\<newline>\<newline>Previous conversation:\<newline>'' @ hs
                               else SYSTEM_PROMPT) \<and>
         (ts = None \<or> ts = Some [] \<longrightarrow> tools q = None \<and> tool_choice q = None)"
proof -
  from run obtain p1 out1 E where tr: "trace = Create p1 out1 # E" and
    p1: "system p1 = (case h of None \<Rightarrow> SYSTEM_PROMPT
                  | Some hs \<Rightarrow> if hs \<noteq> [] then SYSTEM_PROMPT @ ''\<newline>\<newline>Previous conversation:\<newline>'' @ hs
                               else SYSTEM_PROMPT)"
    "tools p1 = (if ts \<noteq> None \<and> ts \<noteq> Some [] then ts else None)"
    "tool_choice p1 = (if ts \<noteq> None \<and> ts \<noteq> Some [] then Some [(''type'', ''auto'')] else None)" and
    alt: "(E = [] \<and> res = final out1 \<and> (tmo = None \<or> (\<forall>r. out1 = Inr r \<longrightarrow> stop_reason r \<noteq> ''tool_use''))) \<or>
     (\<exists>r tm w1. out1 = Inr r \<and> stop_reason r = ''tool_use'' \<and> tmo = Some tm \<and>
        for_rounds self tm (tools p1) (system p1) [0..<MAX_TOOL_ROUNDS] (messages p1) r w1 = (res, E, w'))"
    by (rule generate_response_cases)
  show ?thesis
  proof (cases "q = p1")
    case True
    with p1 show ?thesis by auto
  next
    case False
    with q tr have qE: "q \<in> set (calls E)" by simp
    then have "E \<noteq> []" by auto
    with alt obtain r tm w1 where
      "for_rounds self tm (tools p1) (system p1) [0..<MAX_TOOL_ROUNDS] (messages p1) r w1 = (res, E, w')"
      by auto
    from for_rounds_params [OF this qE] p1 show ?thesis by auto
  qed
qed

text \<open>
  Where a query ends: after a response whose stop reason is not \<^verbatim>\<open>tool_use\<close>, and
  after the first response when no tool manager is given. The result is then
  \<^verbatim>\<open>content[0].text\<close> of that response.
\<close>

lemma non_tool_response_is_last:
  assumes run: "generate_response self query h ts tmo w = (res, trace, w')"
    and dec: "trace = pre @ Create p (Inr r) # rest"
    and stop: "stop_reason r \<noteq> ''tool_use''"
  shows "rest = [] \<and> res = content0_text r \<and>
         (\<forall>t bs. content r = TextBlock t # bs \<longrightarrow> res = Inr t) \<and>
         (pre = [] \<longrightarrow> trace = [Create p (Inr r)])"
proof -
  from stop have "\<forall>r'. (Inr r :: py_exception + response) = Inr r' \<longrightarrow> stop_reason r' \<noteq> ''tool_use''"
    by simp
  from generate_response_terminal [OF run dec this]
  have "rest = []" "res = content0_text r" by simp_all
  with dec show ?thesis by (auto simp: content0_text_def)
qed

lemma no_tool_manager_single_call:
  assumes run: "generate_response self query h ts None w = (res, trace, w')"
    and dec: "trace = Create p (Inr r) # rest"
    and stop: "stop_reason r = ''tool_use''"
  shows "rest = [] \<and> res = content0_text r \<and>
         (\<forall>t bs. content r = TextBlock t # bs \<longrightarrow> res = Inr t) \<and>
         (\<forall>i n inp bs. content r = ToolUseBlock i n inp # bs \<longrightarrow> (\<exists>e. res = Inl e)) \<and>
         (content r = [] \<longrightarrow> (\<exists>e. res = Inl e))"
proof -
  from run obtain p1 out1 E where tr: "trace = Create p1 out1 # E" and
    alt: "(E = [] \<and> res = final out1 \<and> (None = (None :: 'a tool_manager option) \<or> (\<forall>r. out1 = Inr r \<longrightarrow> stop_reason r \<noteq> ''tool_use''))) \<or>
     (\<exists>r tm w1. out1 = Inr r \<and> stop_reason r = ''tool_use'' \<and> None = Some tm \<and>
        for_rounds self tm (tools p1) (system p1) [0..<MAX_TOOL_ROUNDS] (messages p1) r w1 = (res, E, w'))"
    by (rule generate_response_cases)
  from alt have "E = []" "res = final out1" by auto
  with tr dec show ?thesis by (auto simp: content0_text_def)
qed

section \<open>Concrete runs\<close>

lemma rounds_range: "[0..<MAX_TOOL_ROUNDS] = [0, 1]"
  by (simp add: MAX_TOOL_ROUNDS_def upt_rec)

lemma two_rounds_run:
  "generate_response (demo_generator [outline_then_search, search_only, answer_and_request])
     ''What is in lesson 4?'' (Some ''User: hi'') (Some demo_tool_defs) (Some failing_outline) 0 =
   (Inr ''Two-round answer'', two_rounds_trace, 3)"
  unfolding generate_response_def handle_tool_execution_def rounds_range
  by (simp add: Let_def
      demo_generator_def scripted_def failing_outline_def demo_tool_defs_def
      outline_then_search_def search_only_def answer_and_request_def
      call1_def call2_def call3_def round1_results_def round1_dispatch_def round2_dispatch_def
      two_rounds_trace_def content0_text_def MAX_TOOL_ROUNDS_def)


lemma early_exit_run:
  "generate_response (demo_generator [search_only, plain_answer])
     ''What is ML?'' None (Some demo_tool_defs) (Some failing_outline) 0 =
   (Inr ''Enough info'', early_exit_trace, 2)"
  unfolding generate_response_def handle_tool_execution_def rounds_range
  by (simp add: Let_def
      demo_generator_def scripted_def failing_outline_def demo_tool_defs_def
      search_only_def plain_answer_def exit_call1_def exit_call2_def round2_dispatch_def
      early_exit_trace_def content0_text_def MAX_TOOL_ROUNDS_def)

lemma engine_failure_run:
  "generate_response (demo_generator [search_only])
     ''What is ML?'' None (Some demo_tool_defs) (Some failing_outline) 0 =
   (Inl (PyExc ''APIError'' ''API down''), engine_failure_trace, 2)"
  unfolding generate_response_def handle_tool_execution_def rounds_range
  by (simp add: Let_def
      demo_generator_def scripted_def failing_outline_def demo_tool_defs_def
      search_only_def exit_call1_def exit_call2_def round2_dispatch_def
      engine_failure_trace_def content0_text_def MAX_TOOL_ROUNDS_def)

lemma degraded_run:
  "generate_response (demo_generator [outline_then_search])
     ''What is ML?'' None (Some demo_tool_defs) None 0 =
   (Inr ''Let me look'', [Create exit_call1 (Inr outline_then_search)], 1)"
  unfolding generate_response_def
  by (simp add: Let_def demo_generator_def scripted_def demo_tool_defs_def
      outline_then_search_def exit_call1_def content0_text_def)

section \<open>Properties of the orchestrator\<close>

text \<open>
  C1. A query makes at most \<open>MAX_TOOL_ROUNDS + 1 = 3\<close> completion-engine calls, whatever the
  engine and the tools do, and a call at index \<open>MAX_TOOL_ROUNDS\<close> carries neither
  \<^verbatim>\<open>tools\<close> nor \<^verbatim>\<open>tool_choice\<close>. When a tool manager is given and every response of the
  run asks for tool use, exactly three calls are made and the last one, the synthesis call,
  offers no tools. The loop is a total function, so it always ends.
\<close>

theorem engine_calls_bounded:
  assumes run: "generate_response self query h ts tmo w = (res, trace, w')"
  shows "MAX_TOOL_ROUNDS + 1 = 3 \<and>
         length (calls trace) \<le> MAX_TOOL_ROUNDS + 1 \<and>
         (\<forall>i. MAX_TOOL_ROUNDS \<le> i \<and> i < length (calls trace) \<longrightarrow>
              tools (calls trace ! i) = None \<and> tool_choice (calls trace ! i) = None) \<and>
         (tmo \<noteq> None \<and>
          (\<forall>p out. Create p out \<in> set trace \<longrightarrow> (\<exists>r. out = Inr r \<and> stop_reason r = ''tool_use'')) \<longrightarrow>
            length (calls trace) = MAX_TOOL_ROUNDS + 1 \<and>
            tools (last (calls trace)) = None \<and> tool_choice (last (calls trace)) = None)"
proof -
  from run obtain p1 out1 E where tr: "trace = Create p1 out1 # E" and
    alt: "(E = [] \<and> res = final out1 \<and> (tmo = None \<or> (\<forall>r. out1 = Inr r \<longrightarrow> stop_reason r \<noteq> ''tool_use''))) \<or>
     (\<exists>r tm w1. out1 = Inr r \<and> stop_reason r = ''tool_use'' \<and> tmo = Some tm \<and>
        for_rounds self tm (tools p1) (system p1) [0..<MAX_TOOL_ROUNDS] (messages p1) r w1 = (res, E, w'))"
    by (rule generate_response_cases)
  let ?P = "\<lambda>rc q. MAX_TOOL_ROUNDS \<le> rc + 1 \<longrightarrow> tools q = None \<and> tool_choice q = None"
  have bound: "length (calls E) \<le> MAX_TOOL_ROUNDS \<and>
     list_all2 ?P (take (length (calls E)) [0..<MAX_TOOL_ROUNDS]) (calls E)"
    using alt for_rounds_calls [of self _ "tools p1" "system p1" "[0..<MAX_TOOL_ROUNDS]"]
    by fastforce
  have cs: "calls trace = p1 # calls E" using tr by simp
  have final_call: "tools (calls trace ! i) = None \<and> tool_choice (calls trace ! i) = None"
    if i: "MAX_TOOL_ROUNDS \<le> i" "i < length (calls trace)" for i
  proof -
    from i obtain j where j: "i = Suc j" "j < length (calls E)"
      using cs by (cases i) (auto simp: MAX_TOOL_ROUNDS_def)
    from bound have la: "list_all2 ?P (take (length (calls E)) [0..<MAX_TOOL_ROUNDS]) (calls E)"
      by (rule conjunct2)
    from bound have le: "length (calls E) \<le> MAX_TOOL_ROUNDS"
      by (rule conjunct1)
    have "j < length (take (length (calls E)) [0..<MAX_TOOL_ROUNDS])"
      using j le by simp
    from list_all2_nthD [OF la this]
    have "?P (take (length (calls E)) [0..<MAX_TOOL_ROUNDS] ! j) (calls E ! j)" .
    moreover have "take (length (calls E)) [0..<MAX_TOOL_ROUNDS] ! j = j"
      using j le by simp
    ultimately show ?thesis using i j cs by simp
  qed
  have exact: "length (calls trace) = MAX_TOOL_ROUNDS + 1"
    if "tmo \<noteq> None"
      "\<forall>p out. Create p out \<in> set trace \<longrightarrow> (\<exists>r. out = Inr r \<and> stop_reason r = ''tool_use'')"
  proof -
    from that tr obtain r where "out1 = Inr r" "stop_reason r = ''tool_use''" by auto
    with alt that(1) obtain tm w1 where
      "for_rounds self tm (tools p1) (system p1) [0..<MAX_TOOL_ROUNDS] (messages p1) r w1 = (res, E, w')"
      by auto
    from for_rounds_all_tool_use [OF this] that(2) tr have "length (calls E) = MAX_TOOL_ROUNDS"
      by auto
    with cs show ?thesis by simp
  qed
  have last_call: "tools (last (calls trace)) = None \<and> tool_choice (last (calls trace)) = None"
    if "length (calls trace) = MAX_TOOL_ROUNDS + 1"
  proof -
    have "calls trace \<noteq> []" using cs by simp
    then have "last (calls trace) = calls trace ! (length (calls trace) - 1)"
      by (rule last_conv_nth)
    with that have "last (calls trace) = calls trace ! MAX_TOOL_ROUNDS"
      by simp
    with final_call [of MAX_TOOL_ROUNDS] that show ?thesis by simp
  qed
  show ?thesis
    using bound cs final_call exact last_call by (simp add: MAX_TOOL_ROUNDS_def)
qed

theorem engine_calls_bounded_witness:
  "length (calls two_rounds_trace) = 3 \<and> last (calls two_rounds_trace) = call3 \<and>
   tools (last (calls two_rounds_trace)) = None \<and>
   tool_choice (last (calls two_rounds_trace)) = None"
proof -
  have every_response_asks:
    "\<forall>p out. Create p out \<in> set two_rounds_trace \<longrightarrow>
       (\<exists>r. out = Inr r \<and> stop_reason r = ''tool_use'')"
    by (auto simp: two_rounds_trace_def round1_dispatch_def round2_dispatch_def
        outline_then_search_def search_only_def answer_and_request_def)
  have "last (calls two_rounds_trace) = call3"
    by (simp add: two_rounds_trace_def round1_dispatch_def round2_dispatch_def)
  with engine_calls_bounded [OF two_rounds_run] every_response_asks show ?thesis
    by simp
qed

text \<open>
  C2. Between two consecutive engine calls of a query lies one tool-dispatch round. The tools
  executed in it are the \<^verbatim>\<open>tool_use\<close> blocks of the response to the first call, one
  execution per block and in the order of the blocks; one result is produced per block and its
  \<^verbatim>\<open>tool_use_id\<close> is the block's \<^verbatim>\<open>id\<close>; the second call's transcript is the first
  call's transcript, then the assistant message that carries the requests, then the
  results as a single user message in the order of the requests (no such message when the
  response has no \<^verbatim>\<open>tool_use\<close> block).
\<close>

theorem tool_results_match_requests:
  assumes run: "generate_response self query h ts tmo w = (res, trace, w')"
    and dec: "trace = pre @ Create p out # T @ Create q out' # post"
    and T: "list_all is_tool T"
  shows "\<exists>r results. out = Inr r \<and>
           map request_of T = map (\<lambda>b. (name b, input b)) (tool_uses r) \<and>
           results = map2 result_for (tool_uses r) T \<and>
           length results = length (tool_uses r) \<and>
           map tool_use_id results = map block_id (tool_uses r) \<and>
           messages q = messages p @
             \<lparr>role = ''assistant'', msg_content = Blocks (content r)\<rparr> #
             (if results = [] then [] else [\<lparr>role = ''user'', msg_content = Results results\<rparr>])"
proof -
  from generate_response_adjacent [OF run dec T] obtain r where
    r: "out = Inr r" and step: "transcript_step (messages p) r T q"
    by blast
  from step have req: "map request_of T = map (\<lambda>b. (name b, input b)) (tool_uses r)"
    by (simp add: transcript_step_def)
  then have len: "length (tool_uses r) = length T"
    by (metis length_map)
  then have nil: "map2 result_for (tool_uses r) T = [] \<longleftrightarrow> tool_uses r = []"
    by (rule map2_eq_Nil_iff)
  from step nil have "messages q = messages p @
             \<lparr>role = ''assistant'', msg_content = Blocks (content r)\<rparr> #
             (if map2 result_for (tool_uses r) T = [] then []
              else [\<lparr>role = ''user'', msg_content = Results (map2 result_for (tool_uses r) T)\<rparr>])"
    by (simp add: transcript_step_def)
  with r req len results_ids [OF len] show ?thesis by simp
qed

theorem tool_results_match_requests_witness:
  "list_all is_tool round1_dispatch \<and>
   map request_of round1_dispatch =
     [(''get_course_outline'', [(''course_name'', ''ML'')]),
      (''search_course_content'', [(''query'', ''lesson 4'')])] \<and>
   map tool_use_id round1_results = [''t1'', ''t2''] \<and>
   messages call2 = messages call1 @
     [\<lparr>role = ''assistant'', msg_content = Blocks (content outline_then_search)\<rparr>,
      \<lparr>role = ''user'', msg_content = Results round1_results\<rparr>]"
proof -
  have dec: "two_rounds_trace = [] @ Create call1 (Inr outline_then_search) # round1_dispatch @
      Create call2 (Inr search_only) # (round2_dispatch @ [Create call3 (Inr answer_and_request)])"
    by (simp add: two_rounds_trace_def)
  have T: "list_all is_tool round1_dispatch"
    by (simp add: round1_dispatch_def)
  have res: "map2 result_for (tool_uses outline_then_search) round1_dispatch = round1_results"
    by (simp add: tool_uses_def outline_then_search_def round1_dispatch_def round1_results_def)
  have uses: "tool_uses outline_then_search =
      [ToolUseBlock ''t1'' ''get_course_outline'' [(''course_name'', ''ML'')],
       ToolUseBlock ''t2'' ''search_course_content'' [(''query'', ''lesson 4'')]]"
    by (simp add: tool_uses_def outline_then_search_def)
  from tool_results_match_requests [OF two_rounds_run dec T] obtain r results where
    r: "Inr outline_then_search = (Inr r :: py_exception + response)" and
    req: "map request_of round1_dispatch = map (\<lambda>b. (name b, input b)) (tool_uses r)" and
    results: "results = map2 result_for (tool_uses r) round1_dispatch" and
    ids: "map tool_use_id results = map block_id (tool_uses r)" and
    msgs: "messages call2 = messages call1 @
             \<lparr>role = ''assistant'', msg_content = Blocks (content r)\<rparr> #
             (if results = [] then [] else [\<lparr>role = ''user'', msg_content = Results results\<rparr>])"
    by blast
  from r have r': "r = outline_then_search" by simp
  from results res r' have results': "results = round1_results" by simp
  have "round1_results \<noteq> []" by (simp add: round1_results_def)
  with T req ids msgs show ?thesis
    unfolding r' results' uses by simp
qed



text \<open>
  C4. The code at two inputs where the stop reason is not \<^verbatim>\<open>tool_use\<close> and the response
  has no text at \<^verbatim>\<open>content[0]\<close>. A first response with stop reason \<^verbatim>\<open>end_turn\<close> and
  empty content: after the single engine call, and with no tool executed,
  \<^verbatim>\<open>generate_response\<close> raises \<^verbatim>\<open>IndexError\<close> where the claim has it return the
  response's text. A second response with stop reason \<^verbatim>\<open>max_tokens\<close> whose content
  starts with a tool-use block: the loop exits at that response with no further tool
  execution and no further engine call, and raises \<^verbatim>\<open>AttributeError\<close>.
\<close>

theorem early_exit_raises:
  "stop_reason empty_answer \<noteq> ''tool_use'' \<and>
   generate_response (demo_generator [empty_answer])
     ''What is ML?'' None (Some demo_tool_defs) (Some failing_outline) 0 =
   (Inl (PyExc ''IndexError'' ''list index out of range''),
    [Create exit_call1 (Inr empty_answer)], 1) \<and>
   stop_reason truncated_request \<noteq> ''tool_use'' \<and>
   generate_response (demo_generator [search_only, truncated_request])
     ''What is ML?'' None (Some demo_tool_defs) (Some failing_outline) 0 =
   (Inl (PyExc ''AttributeError''
      ([CHR 0x27] @ ''ToolUseBlock' object has no attribute 'text'' @ [CHR 0x27])),
    Create exit_call1 (Inr search_only) # round2_dispatch @
      [Create exit_call2 (Inr truncated_request)], 2)"
  unfolding generate_response_def handle_tool_execution_def rounds_range
  by (simp add: Let_def
      demo_generator_def scripted_def failing_outline_def demo_tool_defs_def
      search_only_def empty_answer_def truncated_request_def
      exit_call1_def exit_call2_def round2_dispatch_def
      content0_text_def MAX_TOOL_ROUNDS_def)

text \<open>
  C5. The code at an input of the degraded path: no tool manager is given and the engine's
  response has stop reason \<^verbatim>\<open>tool_use\<close> and a content that starts with a tool-use block.
  No tool is executed and no further engine call is made, but
  \<^verbatim>\<open>response.content[0].text\<close> raises \<^verbatim>\<open>AttributeError\<close>, where the claim has the
  path return text and never raise.
\<close>

theorem degraded_mode_raises:
  "stop_reason search_only = ''tool_use'' \<and>
   generate_response (demo_generator [search_only])
     ''What is ML?'' None (Some demo_tool_defs) None 0 =
   (Inl (PyExc ''AttributeError''
      ([CHR 0x27] @ ''ToolUseBlock' object has no attribute 'text'' @ [CHR 0x27])),
    [Create exit_call1 (Inr search_only)], 1)"
  unfolding generate_response_def
  by (simp add: Let_def demo_generator_def scripted_def demo_tool_defs_def
      search_only_def exit_call1_def content0_text_def)

text \<open>
  C6. An engine call that raises is the last event of the query, whether it is the first call
  or a follow-up call of the round loop: the result of \<^verbatim>\<open>generate_response\<close> is the
  raised exception itself, no text is returned, and the call is not made again.
\<close>

theorem engine_failure_propagates:
  assumes run: "generate_response self query h ts tmo w = (res, trace, w')"
    and dec: "trace = pre @ Create p (Inl e) # rest"
  shows "rest = [] \<and> res = Inl e"
proof -
  have "\<forall>r'. (Inl e :: py_exception + response) = Inr r' \<longrightarrow> stop_reason r' \<noteq> ''tool_use''"
    by simp
  from generate_response_terminal [OF run dec this] show ?thesis by simp
qed

theorem engine_failure_propagates_witness:
  "engine_failure_trace =
     (Create exit_call1 (Inr search_only) # round2_dispatch) @
       [Create exit_call2 (Inl (PyExc ''APIError'' ''API down''))] \<and>
   fst (generate_response (demo_generator [search_only])
     ''What is ML?'' None (Some demo_tool_defs) (Some failing_outline) 0) =
     Inl (PyExc ''APIError'' ''API down'')"
proof -
  have dec: "engine_failure_trace =
     (Create exit_call1 (Inr search_only) # round2_dispatch) @
       Create exit_call2 (Inl (PyExc ''APIError'' ''API down'')) # []"
    by (simp add: engine_failure_trace_def)
  from engine_failure_propagates [OF engine_failure_run dec] dec engine_failure_run
  show ?thesis by simp
qed

text \<open>
  C7. For two consecutive engine calls of a query, the transcript passed to the first is a
  prefix of the transcript passed to the second, and what the round in between appends is
  one assistant message, followed by at most one user message of tool results.
\<close>

theorem transcript_append_only:
  assumes run: "generate_response self query h ts tmo w = (res, trace, w')"
    and dec: "trace = pre @ Create p out # T @ Create q out' # post"
    and T: "list_all is_tool T"
  shows "prefix (messages p) (messages q) \<and>
         (\<exists>a. role a = ''assistant'' \<and>
              (messages q = messages p @ [a] \<or>
               (\<exists>results. messages q = messages p @
                   [a, \<lparr>role = ''user'', msg_content = Results results\<rparr>])))"
proof -
  from generate_response_adjacent [OF run dec T] obtain r where
    step: "transcript_step (messages p) r T q"
    by blast
  let ?a = "\<lparr>role = ''assistant'', msg_content = Blocks (content r)\<rparr>"
  from step have "messages q = messages p @ [?a] \<or>
    (\<exists>results. messages q = messages p @ [?a, \<lparr>role = ''user'', msg_content = Results results\<rparr>])"
    by (auto simp: transcript_step_def split: if_splits)
  moreover have "role ?a = ''assistant''" by simp
  ultimately have "\<exists>a. role a = ''assistant'' \<and>
              (messages q = messages p @ [a] \<or>
               (\<exists>results. messages q = messages p @
                   [a, \<lparr>role = ''user'', msg_content = Results results\<rparr>]))"
    by blast
  moreover from this have "prefix (messages p) (messages q)"
    by auto
  ultimately show ?thesis by blast
qed

theorem transcript_append_only_witness:
  "prefix (messages call2) (messages call3) \<and>
   (\<exists>a. role a = ''assistant'' \<and>
      (messages call3 = messages call2 @ [a] \<or>
       (\<exists>results. messages call3 = messages call2 @
           [a, \<lparr>role = ''user'', msg_content = Results results\<rparr>])))"
proof -
  have dec: "two_rounds_trace = (Create call1 (Inr outline_then_search) # round1_dispatch) @
      Create call2 (Inr search_only) # round2_dispatch @
      Create call3 (Inr answer_and_request) # []"
    by (simp add: two_rounds_trace_def)
  have T: "list_all is_tool round2_dispatch"
    by (simp add: round2_dispatch_def)
  from transcript_append_only [OF two_rounds_run dec T] show ?thesis .
qed

text \<open>
  C8. The first event of every query is an engine call whose transcript is the single user
  message holding the query. With a non-empty history, its system text is the static prompt,
  then \<^verbatim>\<open>\n\nPrevious conversation:\n\<close>, then the history; with a non-empty tools list, it
  carries the tools and the tool choice \<^verbatim>\<open>{"type": "auto"}\<close>.
\<close>

theorem first_call_seeded:
  assumes run: "generate_response self query h ts tmo w = (res, trace, w')"
  shows "\<exists>p out rest. trace = Create p out # rest \<and>
           messages p = [\<lparr>role = ''user'', msg_content = Str query\<rparr>] \<and>
           (\<forall>hs. h = Some hs \<and> hs \<noteq> [] \<longrightarrow>
              system p = SYSTEM_PROMPT @ ''\<newline>\<newline>Previous conversation:\<newline>'' @ hs) \<and>
           (\<forall>tl. ts = Some tl \<and> tl \<noteq> [] \<longrightarrow>
              tools p = Some tl \<and> tool_choice p = Some [(''type'', ''auto'')])"
proof -
  from run obtain p1 out1 E where "trace = Create p1 out1 # E"
    "messages p1 = [\<lparr>role = ''user'', msg_content = Str query\<rparr>]"
    "system p1 = (case h of None \<Rightarrow> SYSTEM_PROMPT
                  | Some hs \<Rightarrow> if hs \<noteq> [] then SYSTEM_PROMPT @ ''\<newline>\<newline>Previous conversation:\<newline>'' @ hs
                               else SYSTEM_PROMPT)"
    "tools p1 = (if ts \<noteq> None \<and> ts \<noteq> Some [] then ts else None)"
    "tool_choice p1 = (if ts \<noteq> None \<and> ts \<noteq> Some [] then Some [(''type'', ''auto'')] else None)"
    by (rule generate_response_cases)
  then show ?thesis by auto
qed

theorem first_call_seeded_witness:
  "two_rounds_trace = Create call1 (Inr outline_then_search) #
     (round1_dispatch @ Create call2 (Inr search_only) # round2_dispatch @
      [Create call3 (Inr answer_and_request)]) \<and>
   messages call1 = [\<lparr>role = ''user'', msg_content = Str ''What is in lesson 4?''\<rparr>] \<and>
   system call1 = SYSTEM_PROMPT @ ''\<newline>\<newline>Previous conversation:\<newline>'' @ ''User: hi'' \<and>
   tools call1 = Some demo_tool_defs \<and> tool_choice call1 = Some [(''type'', ''auto'')]"
proof -
  from first_call_seeded [OF two_rounds_run] obtain p out rest where
    tr: "two_rounds_trace = Create p out # rest" and
    m: "messages p = [\<lparr>role = ''user'', msg_content = Str ''What is in lesson 4?''\<rparr>]" and
    s: "\<forall>hs. Some ''User: hi'' = Some hs \<and> hs \<noteq> [] \<longrightarrow>
              system p = SYSTEM_PROMPT @ ''\<newline>\<newline>Previous conversation:\<newline>'' @ hs" and
    t: "\<forall>tl. Some demo_tool_defs = Some tl \<and> tl \<noteq> [] \<longrightarrow>
              tools p = Some tl \<and> tool_choice p = Some [(''type'', ''auto'')]"
    by blast
  from tr have p: "p = call1" by (simp add: two_rounds_trace_def)
  have "demo_tool_defs \<noteq> []" by (simp add: demo_tool_defs_def)
  with t have "tools p = Some demo_tool_defs \<and> tool_choice p = Some [(''type'', ''auto'')]"
    by blast
  moreover from s have "system p = SYSTEM_PROMPT @ ''\<newline>\<newline>Previous conversation:\<newline>'' @ ''User: hi''"
    by simp
  ultimately show ?thesis using m unfolding p by (simp add: two_rounds_trace_def)
qed

text \<open>
  C9. The empty string as conversation history gives the same result, the same trace and the
  same final world as no history, and every engine call of the query gets the static system
  prompt as its system text.
\<close>

theorem empty_history_same_as_none:
  "generate_response self query (Some []) ts tmo w = generate_response self query None ts tmo w \<and>
   list_all (\<lambda>p. system p = SYSTEM_PROMPT)
     (calls (fst (snd (generate_response self query (Some []) ts tmo w))))"
proof -
  have eq: "generate_response self query (Some []) ts tmo w = generate_response self query None ts tmo w"
    by (simp add: generate_response_def)
  obtain res trace w' where run: "generate_response self query (Some []) ts tmo w = (res, trace, w')"
    by (cases "generate_response self query (Some []) ts tmo w") auto
  have "system q = SYSTEM_PROMPT" if "q \<in> set (calls trace)" for q
    using generate_response_params [OF run that] by simp
  then have "list_all (\<lambda>p. system p = SYSTEM_PROMPT) (calls trace)"
    by (simp add: list_all_iff)
  moreover have "fst (snd (generate_response self query (Some []) ts tmo w)) = trace"
    unfolding run by simp
  ultimately show ?thesis using eq by metis
qed

theorem empty_history_same_as_none_witness:
  "generate_response (demo_generator [search_only, plain_answer])
     ''What is ML?'' (Some []) (Some demo_tool_defs) (Some failing_outline) 0 =
   (Inr ''Enough info'', early_exit_trace, 2) \<and>
   calls early_exit_trace = [exit_call1, exit_call2] \<and>
   list_all (\<lambda>p. system p = SYSTEM_PROMPT) (calls early_exit_trace)"
proof -
  have cs: "calls early_exit_trace = [exit_call1, exit_call2]"
    by (simp add: early_exit_trace_def round2_dispatch_def)
  note inst = empty_history_same_as_none [of "demo_generator [search_only, plain_answer]"
      "''What is ML?''" "Some demo_tool_defs" "Some failing_outline" 0]
  from inst early_exit_run
  have run: "generate_response (demo_generator [search_only, plain_answer])
     ''What is ML?'' (Some []) (Some demo_tool_defs) (Some failing_outline) 0 =
   (Inr ''Enough info'', early_exit_trace, 2)"
    by simp
  from inst have "list_all (\<lambda>p. system p = SYSTEM_PROMPT) (calls early_exit_trace)"
    unfolding run by simp
  with run cs show ?thesis by simp
qed

text \<open>
  C10. The empty list as tools gives the same result, the same trace and the same final
  world as no tools, and no engine call of the query, first or follow-up, carries
  \<^verbatim>\<open>tools\<close> or \<^verbatim>\<open>tool_choice\<close>.
\<close>

theorem empty_tools_same_as_none:
  "generate_response self query h (Some []) tmo w = generate_response self query h None tmo w \<and>
   list_all (\<lambda>p. tools p = None \<and> tool_choice p = None)
     (calls (fst (snd (generate_response self query h (Some []) tmo w))))"
proof -
  have eq: "generate_response self query h (Some []) tmo w = generate_response self query h None tmo w"
    by (simp add: generate_response_def)
  obtain res trace w' where run: "generate_response self query h (Some []) tmo w = (res, trace, w')"
    by (cases "generate_response self query h (Some []) tmo w") auto
  have "tools q = None \<and> tool_choice q = None" if "q \<in> set (calls trace)" for q
    using generate_response_params [OF run that] by simp
  then have "list_all (\<lambda>p. tools p = None \<and> tool_choice p = None) (calls trace)"
    by (simp add: list_all_iff)
  moreover have "fst (snd (generate_response self query h (Some []) tmo w)) = trace"
    unfolding run by simp
  ultimately show ?thesis using eq by metis
qed

theorem empty_tools_same_as_none_witness:
  "generate_response (demo_generator [search_only, plain_answer])
     ''What is ML?'' None (Some []) (Some failing_outline) 0 =
   generate_response (demo_generator [search_only, plain_answer])
     ''What is ML?'' None None (Some failing_outline) 0 \<and>
   calls (fst (snd (generate_response (demo_generator [search_only, plain_answer])
     ''What is ML?'' None (Some []) (Some failing_outline) 0))) =
     [exit_call1\<lparr>tools := None, tool_choice := None\<rparr>,
      exit_call2\<lparr>tools := None, tool_choice := None\<rparr>] \<and>
   list_all (\<lambda>p. tools p = None \<and> tool_choice p = None)
     (calls (fst (snd (generate_response (demo_generator [search_only, plain_answer])
     ''What is ML?'' None (Some []) (Some failing_outline) 0))))"
proof -
  have "calls (fst (snd (generate_response (demo_generator [search_only, plain_answer])
     ''What is ML?'' None (Some []) (Some failing_outline) 0))) =
     [exit_call1\<lparr>tools := None, tool_choice := None\<rparr>,
      exit_call2\<lparr>tools := None, tool_choice := None\<rparr>]"
    unfolding generate_response_def handle_tool_execution_def rounds_range
    by (simp add: Let_def
      demo_generator_def scripted_def failing_outline_def
      search_only_def plain_answer_def exit_call1_def exit_call2_def
      content0_text_def MAX_TOOL_ROUNDS_def)
  with empty_tools_same_as_none [of "demo_generator [search_only, plain_answer]"
      "''What is ML?''" None "Some failing_outline" 0]
  show ?thesis by simp
qed

end
